theory Spec2Isabelle
  imports Complex_Main "HOL-Library.Sublist"
begin

section \<open>Python values used by EASM_API.py\<close>

text \<open>
  A Python \<open>str\<close> is modelled as a \<open>string\<close> whose characters stand for the code points
  below 256.  The tables below (\<open>str.isspace\<close>, \<open>str.lower\<close>) are Python's tables restricted
  to these code points.
\<close>

definition py_isspace :: "char \<Rightarrow> bool" where
  "py_isspace c = ((of_char c :: nat) \<in> {9, 10, 11, 12, 13, 28, 29, 30, 31, 32, 133, 160})"

text \<open>\<open>s.strip()\<close>: whitespace removed at both ends.\<close>

definition strip :: "string \<Rightarrow> string" where
  "strip s = rev (dropWhile py_isspace (rev (dropWhile py_isspace s)))"

text \<open>\<open>str(n)\<close> of an \<open>int\<close>, the form an f-string gives to \<open>{i}\<close>: decimal digits, most
  significant first, with a minus sign in front of a negative number.\<close>

definition digit_char :: "nat \<Rightarrow> char" where
  "digit_char d = ''0123456789'' ! d"

fun str_nat :: "nat \<Rightarrow> string" where
  "str_nat n = (if n < 10 then [digit_char n] else str_nat (n div 10) @ [digit_char (n mod 10)])"

declare str_nat.simps [simp del]

definition str_int :: "int \<Rightarrow> string" where
  "str_int i = (if i < 0 then CHR ''-'' # str_nat (nat (- i)) else str_nat (nat i))"

text \<open>The exceptions of Python that the modelled code can raise and does not catch.\<close>

datatype py_error =
    AttributeError
  | TypeError
  | KeyError string
  | ReError string

text \<open>
  The values \<open>response.json()\<close> can return.  Python's \<open>None\<close> is \<open>JNull\<close>; a \<open>dict\<close> is the
  list of its items in insertion order (the keys of a Python dict are distinct).
\<close>

datatype json =
    JNull
  | JBool bool
  | JInt int
  | JFloat real
  | JStr string
  | JArr "json list"
  | JObj "(string \<times> json) list"

text \<open>The truth value of \<open>if profiles:\<close>.\<close>

fun truthy :: "json \<Rightarrow> bool" where
  "truthy JNull = False"
| "truthy (JBool b) = b"
| "truthy (JInt i) = (i \<noteq> 0)"
| "truthy (JFloat x) = (x \<noteq> 0)"
| "truthy (JStr s) = (s \<noteq> [])"
| "truthy (JArr xs) = (xs \<noteq> [])"
| "truthy (JObj kvs) = (kvs \<noteq> [])"

text \<open>\<open>for profile in profiles\<close>: a list gives its elements, a dict its keys, a string its
  characters; any other value is not iterable.\<close>

fun py_iter :: "json \<Rightarrow> py_error + json list" where
  "py_iter (JArr xs) = Inr xs"
| "py_iter (JObj kvs) = Inr (map (\<lambda>kv. JStr (fst kv)) kvs)"
| "py_iter (JStr s) = Inr (map (\<lambda>c. JStr [c]) s)"
| "py_iter v = Inl TypeError"

text \<open>\<open>d.get(key, default)\<close> on the items of a dict.\<close>

definition dict_get :: "(string \<times> json) list \<Rightarrow> string \<Rightarrow> json \<Rightarrow> json" where
  "dict_get kvs key dflt = (case map_of kvs key of Some v \<Rightarrow> v | None \<Rightarrow> dflt)"

text \<open>\<open>d[key] = v\<close> on the items of a dict: a key already present keeps its place.\<close>

fun dict_set :: "(string \<times> 'v) list \<Rightarrow> string \<Rightarrow> 'v \<Rightarrow> (string \<times> 'v) list" where
  "dict_set [] key v = [(key, v)]"
| "dict_set (kv # kvs) key v = (if fst kv = key then (key, v) # kvs else kv # dict_set kvs key v)"

text \<open>\<open>urllib.parse.quote(s)\<close> with its default \<open>safe='/'\<close>: letters, digits and \<open>_.-~/\<close> are
  kept, every other character becomes the \<open>%XX\<close> escapes of its UTF-8 bytes.\<close>

definition hex_char :: "nat \<Rightarrow> char" where
  "hex_char d = ''0123456789ABCDEF'' ! d"

definition pct :: "nat \<Rightarrow> string" where
  "pct b = [CHR ''%'', hex_char (b div 16), hex_char (b mod 16)]"

definition always_safe :: "char \<Rightarrow> bool" where
  "always_safe c =
     (let n = (of_char c :: nat)
      in (65 \<le> n \<and> n \<le> 90) \<or> (97 \<le> n \<and> n \<le> 122) \<or> (48 \<le> n \<and> n \<le> 57)
         \<or> c \<in> set ''_.-~/'')"

definition quote_char :: "char \<Rightarrow> string" where
  "quote_char c =
     (let n = (of_char c :: nat)
      in if always_safe c then [c]
         else if n < 128 then pct n
         else pct (192 + n div 64) @ pct (128 + n mod 64))"

definition quote :: "string \<Rightarrow> string" where
  "quote s = concat (map quote_char s)"

section \<open>The gateway: requests and responses\<close>

text \<open>
  What \<open>requests.post\<close>, \<open>requests.get\<close> and \<open>requests.delete\<close> are given: the method, the URL,
  the \<open>headers=\<close> argument and, for a POST, the form fields of \<open>data=\<close>.
\<close>

datatype http_method = POST | GET | DELETE

record request =
  http_method :: http_method
  url :: string
  headers :: "(string \<times> string) list"
  data :: "(string \<times> string) list"

text \<open>
  The \<open>requests.Response\<close> object as far as the code reads it: \<open>status_code\<close>, \<open>reason\<close>
  and \<open>url\<close> (both used by \<open>raise_for_status\<close> in its message), \<open>text\<close>, and the outcome of
  \<open>json()\<close>, which is the decoded value or, for a body that is not JSON, the message of
  \<open>requests.exceptions.JSONDecodeError\<close> (a \<open>RequestException\<close>).
\<close>

record response =
  status_code :: int
  reason :: string
  response_url :: string
  response_text :: string
  response_json :: "string + json"

text \<open>A call either returns a response or raises a \<open>RequestException\<close> (DNS, TLS, timeout,
  connection reset, invalid URL) whose \<open>str(e)\<close> is the message.\<close>

datatype http_result = Responded response | RequestException string

text \<open>
  The remote gateway is deterministic but may answer differently as time goes on: its answer
  is a function of the requests made so far and of the request at hand.  Every function that
  talks to the gateway takes the list \<open>sent\<close> of the requests made so far and returns the extended
  list.
\<close>

type_synonym server = "request list \<Rightarrow> request \<Rightarrow> http_result"

definition send :: "server \<Rightarrow> request list \<Rightarrow> request \<Rightarrow> http_result \<times> request list" where
  "send srv sent req = (srv sent req, sent @ [req])"

text \<open>\<open>response.raise_for_status()\<close>: the message of the \<open>HTTPError\<close> it raises, if any.\<close>

definition raise_for_status :: "response \<Rightarrow> string option" where
  "raise_for_status r =
     (if 400 \<le> status_code r \<and> status_code r < 500
      then Some (str_int (status_code r) @ '' Client Error: '' @ reason r @ '' for url: '' @ response_url r)
      else if 500 \<le> status_code r \<and> status_code r < 600
      then Some (str_int (status_code r) @ '' Server Error: '' @ reason r @ '' for url: '' @ response_url r)
      else None)"

section \<open>The functions of EASM_API.py\<close>

subsection \<open>get_auth_token\<close>

definition auth_request :: "string \<Rightarrow> string \<Rightarrow> string \<Rightarrow> request" where
  "auth_request username password gateway_url =
     \<lparr>http_method = POST,
      url = ''https://'' @ gateway_url @ ''/auth'',
      headers = [(''Content-Type'', ''application/x-www-form-urlencoded'')],
      data = [(''username'', username), (''password'', password),
              (''token'', ''true''), (''permissions'', ''true'')]\<rparr>"

text \<open>The pair \<open>(token, error)\<close> that \<open>get_auth_token\<close> returns from the outcome of its POST.\<close>

definition auth_outcome :: "http_result \<Rightarrow> string option \<times> string option" where
  "auth_outcome res =
     (case res of
        Responded r \<Rightarrow>
          if status_code r = 201
          then (let token = strip (response_text r)
                in if token \<noteq> [] then (Some token, None)
                   else (None, Some ''Empty token received''))
          else (None, Some (''HTTP '' @ str_int (status_code r) @ '' - '' @ response_text r))
      | RequestException e \<Rightarrow> (None, Some e))"

definition get_auth_token ::
  "server \<Rightarrow> request list \<Rightarrow> string \<Rightarrow> string \<Rightarrow> string
     \<Rightarrow> (string option \<times> string option) \<times> request list" where
  "get_auth_token srv sent username password gateway_url =
     (case send srv sent (auth_request username password gateway_url) of
        (res, sent') \<Rightarrow> (auth_outcome res, sent'))"

subsection \<open>get_profile_status\<close>

definition status_request :: "string \<Rightarrow> string \<Rightarrow> request" where
  "status_request auth_token gateway_url =
     \<lparr>http_method = GET,
      url = ''https://'' @ gateway_url @ ''/easm/v2/profile/status'',
      headers = [(''accept'', ''*/*''), (''Authorization'', ''Bearer '' @ auth_token)],
      data = []\<rparr>"

text \<open>The pair \<open>(profiles, error)\<close> that \<open>get_profile_status\<close> returns from the outcome of its
  GET; \<open>None\<close> in the first place is \<open>JNull\<close>.\<close>

definition status_outcome :: "http_result \<Rightarrow> json \<times> string option" where
  "status_outcome res =
     (case res of
        Responded r \<Rightarrow>
          (case raise_for_status r of
             Some e \<Rightarrow> (JNull, Some e)
           | None \<Rightarrow>
               (case response_json r of
                  Inl e \<Rightarrow> (JNull, Some e)
                | Inr v \<Rightarrow> (v, None)))
      | RequestException e \<Rightarrow> (JNull, Some e))"

definition get_profile_status ::
  "server \<Rightarrow> request list \<Rightarrow> string \<Rightarrow> string \<Rightarrow> (json \<times> string option) \<times> request list" where
  "get_profile_status srv sent auth_token gateway_url =
     (case send srv sent (status_request auth_token gateway_url) of
        (res, sent') \<Rightarrow> (status_outcome res, sent'))"

subsection \<open>delete_profile\<close>

definition delete_request :: "string \<Rightarrow> string \<Rightarrow> string \<Rightarrow> request" where
  "delete_request auth_token gateway_url profile_name =
     \<lparr>http_method = DELETE,
      url = ''https://'' @ gateway_url @ ''/easm/v2/profile?profileName='' @ quote profile_name,
      headers = [(''Authorization'', ''Bearer '' @ auth_token)],
      data = []\<rparr>"

text \<open>The pair \<open>(success, error)\<close> that \<open>delete_profile\<close> returns from the outcome of its
  DELETE.\<close>

definition delete_outcome :: "http_result \<Rightarrow> bool \<times> string option" where
  "delete_outcome res =
     (case res of
        Responded r \<Rightarrow>
          (case raise_for_status r of
             Some e \<Rightarrow> (False, Some e)
           | None \<Rightarrow> (True, None))
      | RequestException e \<Rightarrow> (False, Some e))"

text \<open>
  The profile name comes from a cell of the table and need not be a \<open>str\<close>;
  \<open>urllib.parse.quote\<close> raises \<open>TypeError\<close> for any other value, before the \<open>try\<close> block and
  before any request is made.
\<close>

definition delete_profile ::
  "server \<Rightarrow> request list \<Rightarrow> string \<Rightarrow> string \<Rightarrow> json
     \<Rightarrow> (py_error + bool \<times> string option) \<times> request list" where
  "delete_profile srv sent auth_token gateway_url profile_name =
     (case profile_name of
        JStr name \<Rightarrow>
          (case send srv sent (delete_request auth_token gateway_url name) of
             (res, sent') \<Rightarrow> (Inr (delete_outcome res), sent'))
      | _ \<Rightarrow> (Inl TypeError, sent))"

subsection \<open>generate_usernames\<close>

text \<open>The loop \<open>for i in range(start, end + 1)\<close> with the list built so far; \<open>stop\<close> is
  \<open>end + 1\<close>.\<close>

function usernames_loop :: "string \<Rightarrow> int \<Rightarrow> int \<Rightarrow> string list \<Rightarrow> string list" where
  "usernames_loop base_username i stop usernames =
     (if i < stop
      then usernames_loop base_username (i + 1) stop
             (usernames @ [if i = 0 then base_username else base_username @ str_int i])
      else usernames)"
  by pat_completeness auto
termination
  by (relation "measure (\<lambda>(base_username, i, stop, usernames). nat (stop - i))") auto

declare usernames_loop.simps [simp del]

definition generate_usernames :: "string \<Rightarrow> int \<Rightarrow> int \<Rightarrow> string list" where
  "generate_usernames base_username start end_num = usernames_loop base_username start (end_num + 1) []"

section \<open>The script of main\<close>

subsection \<open>The Connect button (lines 112 to 135)\<close>

text \<open>What the page shows for one username: \<open>st.success\<close> with "Authenticated", or \<open>st.error\<close>
  with the error that \<open>get_auth_token\<close> returned.\<close>

datatype auth_message = Authenticated string | NotAuthenticated string "string option"

text \<open>
  The loop over \<open>usernames\<close>.  \<open>tokens\<close> is the dict built so far, as the list of its items;
  \<open>if token:\<close> holds for a token that is a non-empty string.
\<close>

fun authenticate_loop ::
  "server \<Rightarrow> request list \<Rightarrow> string list \<Rightarrow> string \<Rightarrow> string
     \<Rightarrow> (string \<times> string) list \<Rightarrow> auth_message list
     \<Rightarrow> ((string \<times> string) list \<times> auth_message list) \<times> request list" where
  "authenticate_loop srv sent [] password gateway_url tokens shown = ((tokens, shown), sent)"
| "authenticate_loop srv sent (username # usernames) password gateway_url tokens shown =
     (case get_auth_token srv sent username password gateway_url of
        ((token, error), sent') \<Rightarrow>
          (case token of
             Some t \<Rightarrow>
               if t \<noteq> []
               then authenticate_loop srv sent' usernames password gateway_url
                      (dict_set tokens username t) (shown @ [Authenticated username])
               else authenticate_loop srv sent' usernames password gateway_url
                      tokens (shown @ [NotAuthenticated username error])
           | None \<Rightarrow>
               authenticate_loop srv sent' usernames password gateway_url
                 tokens (shown @ [NotAuthenticated username error])))"

text \<open>
  The handler of the button.  \<open>st.error\<close> followed by \<open>st.stop()\<close> ends the run with the
  message shown (\<open>Inl\<close>); otherwise the usernames are generated and authenticated one by one,
  and the result is \<open>st.session_state.tokens\<close> with the messages shown.
\<close>

definition connect ::
  "server \<Rightarrow> request list \<Rightarrow> string \<Rightarrow> string \<Rightarrow> string \<Rightarrow> int \<Rightarrow> int
     \<Rightarrow> (string + (string \<times> string) list \<times> auth_message list) \<times> request list" where
  "connect srv sent gateway_url base_username password start_num end_num =
     (if \<not> (gateway_url \<noteq> [] \<and> base_username \<noteq> [] \<and> password \<noteq> [])
      then (Inl ''Please fill in all required fields.'', sent)
      else if end_num < start_num
      then (Inl ''End number must be greater than or equal to start number.'', sent)
      else (case authenticate_loop srv sent (generate_usernames base_username start_num end_num)
                   password gateway_url [] [] of
              (result, sent') \<Rightarrow> (Inr result, sent')))"

subsection \<open>Fetching the profiles (lines 144 to 165)\<close>

text \<open>One row of \<open>all_profiles\<close>: the dict with the six keys.\<close>

record profile_record =
  username :: string
  profileName :: json
  status :: json
  lastConfiguredOn :: json
  nextScheduledSyncOn :: json
  lastDiscoveryCompletedOn :: json

text \<open>The dict appended for one element \<open>profile\<close> of \<open>profiles\<close> that is a dict.\<close>

definition profile_record_of :: "string \<Rightarrow> (string \<times> json) list \<Rightarrow> profile_record" where
  "profile_record_of user profile =
     \<lparr>username = user,
      profileName = dict_get profile ''profileName'' (JStr ''N/A''),
      status = dict_get profile ''status'' (JStr ''Unknown''),
      lastConfiguredOn = dict_get profile ''lastConfiguredOn'' (JStr ''N/A''),
      nextScheduledSyncOn = dict_get profile ''nextScheduledSyncOn'' (JStr ''N/A''),
      lastDiscoveryCompletedOn = dict_get profile ''lastDiscoveryCompletedOn'' (JStr ''N/A'')\<rparr>"

text \<open>The row appended for one element of \<open>profiles\<close>.  \<open>profile.get\<close> exists on a dict
  only: any other element raises \<open>AttributeError\<close> at the first \<open>get\<close>.\<close>

fun profile_row :: "string \<Rightarrow> json \<Rightarrow> py_error + profile_record" where
  "profile_row user (JObj profile) = Inr (profile_record_of user profile)"
| "profile_row user v = Inl AttributeError"

text \<open>The row appended in the \<open>else\<close> branch.\<close>

definition failed_row :: "string \<Rightarrow> profile_record" where
  "failed_row user =
     \<lparr>username = user,
      profileName = JStr ''N/A'',
      status = JStr ''Status Retrieval Failed'',
      lastConfiguredOn = JStr ''N/A'',
      nextScheduledSyncOn = JStr ''N/A'',
      lastDiscoveryCompletedOn = JStr ''N/A''\<rparr>"

text \<open>The inner loop \<open>for profile in profiles\<close> over the elements still to come.\<close>

fun profiles_loop ::
  "string \<Rightarrow> json list \<Rightarrow> profile_record list \<Rightarrow> py_error + profile_record list" where
  "profiles_loop user [] all_profiles = Inr all_profiles"
| "profiles_loop user (profile # profiles) all_profiles =
     (case profile_row user profile of
        Inl e \<Rightarrow> Inl e
      | Inr row \<Rightarrow> profiles_loop user profiles (all_profiles @ [row]))"

text \<open>The body of the outer loop for one identity, given what \<open>get_profile_status\<close>
  returned.\<close>

definition add_profiles ::
  "string \<Rightarrow> json \<Rightarrow> profile_record list \<Rightarrow> py_error + profile_record list" where
  "add_profiles user profiles all_profiles =
     (if truthy profiles
      then (case py_iter profiles of
              Inl e \<Rightarrow> Inl e
            | Inr elements \<Rightarrow> profiles_loop user elements all_profiles)
      else Inr (all_profiles @ [failed_row user]))"

text \<open>The outer loop \<open>for username, token in st.session_state.tokens.items()\<close>.  An
  exception that nothing catches ends the run (\<open>Inl\<close>); the requests made until then stay
  made.\<close>

fun aggregate_loop ::
  "server \<Rightarrow> request list \<Rightarrow> (string \<times> string) list \<Rightarrow> string \<Rightarrow> profile_record list
     \<Rightarrow> (py_error + profile_record list) \<times> request list" where
  "aggregate_loop srv sent [] gateway_url all_profiles = (Inr all_profiles, sent)"
| "aggregate_loop srv sent ((user, token) # items) gateway_url all_profiles =
     (case get_profile_status srv sent token gateway_url of
        ((profiles, error), sent') \<Rightarrow>
          (case add_profiles user profiles all_profiles of
             Inl e \<Rightarrow> (Inl e, sent')
           | Inr all_profiles' \<Rightarrow> aggregate_loop srv sent' items gateway_url all_profiles'))"

definition aggregate ::
  "server \<Rightarrow> request list \<Rightarrow> (string \<times> string) list \<Rightarrow> string
     \<Rightarrow> (py_error + profile_record list) \<times> request list" where
  "aggregate srv sent tokens gateway_url = aggregate_loop srv sent tokens gateway_url []"

subsection \<open>The search filter (lines 171 to 174)\<close>

text \<open>
  \<open>Series.str.contains(search, case=False)\<close> compiles \<open>search\<close> as a regular expression with
  \<open>re.IGNORECASE\<close> and tests every cell with \<open>pattern.search\<close>.  Two facts of Python's \<open>re\<close>
  are modelled; the engine on every other pattern is the parameter \<open>re_other\<close> of the library.
  \<^item> A pattern with none of the special characters \<open>. [ { ( ) * + ? ^ $ |\<close> and the backslash matches
    itself, letter case ignored.
  \<^item> The pattern \<open>(\<close> does not compile: \<open>re.error\<close>.
\<close>

definition re_special :: "char \<Rightarrow> bool" where
  "re_special c = (c \<in> set ''.[{()*+?^$|'' \<or> c = CHR 0x5C)"

text \<open>\<open>str.lower\<close> on one code point below 256: the letters A to Z and the capital letters
  of Latin-1 (192 to 222, without the multiplication sign 215).\<close>

definition py_lower :: "char \<Rightarrow> char" where
  "py_lower c =
     (let n = (of_char c :: nat)
      in if (65 \<le> n \<and> n \<le> 90) \<or> (192 \<le> n \<and> n \<le> 222 \<and> n \<noteq> 215)
         then char_of (n + 32) else c)"

text \<open>The literal pattern matches at the start of the text.\<close>

fun ci_match_here :: "string \<Rightarrow> string \<Rightarrow> bool" where
  "ci_match_here [] s = True"
| "ci_match_here (p # ps) [] = False"
| "ci_match_here (p # ps) (c # cs) = (py_lower c = py_lower p \<and> ci_match_here ps cs)"

text \<open>\<open>pattern.search(s) is not None\<close> for a literal pattern: a match at some position.\<close>

fun ci_search :: "string \<Rightarrow> string \<Rightarrow> bool" where
  "ci_search pat [] = ci_match_here pat []"
| "ci_search pat (c # cs) = (ci_match_here pat (c # cs) \<or> ci_search pat cs)"

text \<open>
  The library behaviour that is not modelled here, as parameters:
  \<^item> \<open>re_other\<close>: \<open>re.compile(pattern, re.IGNORECASE)\<close> on the patterns outside the two cases
    above, giving \<open>re.error\<close> or the test \<open>search(s) is not None\<close>;
  \<^item> \<open>astype_other\<close>: the text \<open>astype(str)\<close> gives to a cell that is not a \<open>str\<close>; pandas
    chooses it by the values of the whole column (the first argument).
\<close>

record pylib =
  re_other :: "string \<Rightarrow> py_error + (string \<Rightarrow> bool)"
  astype_other :: "json list \<Rightarrow> json \<Rightarrow> string"

definition re_compile_ignorecase :: "pylib \<Rightarrow> string \<Rightarrow> py_error + (string \<Rightarrow> bool)" where
  "re_compile_ignorecase lib pat =
     (if list_all (\<lambda>c. \<not> re_special c) pat then Inr (ci_search pat)
      else if pat = ''(''
      then Inl (ReError ''missing ), unterminated subpattern at position 0'')
      else re_other lib pat)"

text \<open>\<open>astype(str)\<close> on one cell: a \<open>str\<close> is kept as it is.\<close>

definition astype_str :: "pylib \<Rightarrow> json list \<Rightarrow> json \<Rightarrow> string" where
  "astype_str lib column v = (case v of JStr s \<Rightarrow> s | _ \<Rightarrow> astype_other lib column v)"

text \<open>\<open>row.astype(str)\<close>: the six cells of a row of the frame \<open>df\<close>, as text.\<close>

definition row_texts :: "pylib \<Rightarrow> profile_record list \<Rightarrow> profile_record \<Rightarrow> string list" where
  "row_texts lib df row =
     [username row,
      astype_str lib (map profileName df) (profileName row),
      astype_str lib (map status df) (status row),
      astype_str lib (map lastConfiguredOn df) (lastConfiguredOn row),
      astype_str lib (map nextScheduledSyncOn df) (nextScheduledSyncOn row),
      astype_str lib (map lastDiscoveryCompletedOn df) (lastDiscoveryCompletedOn row)]"

text \<open>The lambda applied to one row: \<open>row.astype(str).str.contains(search, case=False).any()\<close>.\<close>

definition row_matches ::
  "pylib \<Rightarrow> string \<Rightarrow> profile_record list \<Rightarrow> profile_record \<Rightarrow> py_error + bool" where
  "row_matches lib search df row =
     (case re_compile_ignorecase lib search of
        Inl e \<Rightarrow> Inl e
      | Inr found \<Rightarrow> Inr (list_ex found (row_texts lib df row)))"

text \<open>\<open>df.apply(..., axis=1)\<close>: the lambda on every row in turn; the first exception ends
  the run.\<close>

fun apply_rows ::
  "pylib \<Rightarrow> string \<Rightarrow> profile_record list \<Rightarrow> profile_record list \<Rightarrow> py_error + bool list" where
  "apply_rows lib search df [] = Inr []"
| "apply_rows lib search df (row # rows) =
     (case row_matches lib search df row of
        Inl e \<Rightarrow> Inl e
      | Inr b \<Rightarrow>
          (case apply_rows lib search df rows of
             Inl e \<Rightarrow> Inl e
           | Inr marks \<Rightarrow> Inr (b # marks)))"

text \<open>\<open>if search: ... df = df[mask]\<close>.  (The frame has a row whenever this runs: the
  script reaches it only with a non-empty \<open>tokens\<close>.)\<close>

definition filter_df ::
  "pylib \<Rightarrow> string \<Rightarrow> profile_record list \<Rightarrow> py_error + profile_record list" where
  "filter_df lib search df =
     (if search \<noteq> []
      then (case apply_rows lib search df df of
              Inl e \<Rightarrow> Inl e
            | Inr marks \<Rightarrow> Inr (map fst (filter snd (zip df marks))))
      else Inr df)"

subsection \<open>The bulk delete (lines 216 to 242)\<close>

text \<open>
  The loop over \<open>selected_profiles\<close>, each entry the pair of the \<open>username\<close> and the
  \<open>profileName\<close> of a selected row.  \<open>st.session_state.tokens[...]\<close> raises \<open>KeyError\<close> for a
  username that is not a key of \<open>tokens\<close>.
\<close>

fun delete_loop ::
  "server \<Rightarrow> request list \<Rightarrow> (string \<times> string) list \<Rightarrow> string \<Rightarrow> (string \<times> json) list
     \<Rightarrow> json list \<Rightarrow> (json \<times> string option) list
     \<Rightarrow> (py_error + json list \<times> (json \<times> string option) list) \<times> request list" where
  "delete_loop srv sent tokens gateway_url [] delete_success delete_failed =
     (Inr (delete_success, delete_failed), sent)"
| "delete_loop srv sent tokens gateway_url ((user, name) # selected) delete_success delete_failed =
     (case map_of tokens user of
        None \<Rightarrow> (Inl (KeyError user), sent)
      | Some token \<Rightarrow>
          (case delete_profile srv sent token gateway_url name of
             (Inl e, sent') \<Rightarrow> (Inl e, sent')
           | (Inr (success, error), sent') \<Rightarrow>
               if success
               then delete_loop srv sent' tokens gateway_url selected
                      (delete_success @ [name]) delete_failed
               else delete_loop srv sent' tokens gateway_url selected
                      delete_success (delete_failed @ [(name, error)])))"

definition bulk_delete ::
  "server \<Rightarrow> request list \<Rightarrow> (string \<times> string) list \<Rightarrow> string \<Rightarrow> (string \<times> json) list
     \<Rightarrow> (py_error + json list \<times> (json \<times> string option) list) \<times> request list" where
  "bulk_delete srv sent tokens gateway_url selected_profiles =
     delete_loop srv sent tokens gateway_url selected_profiles [] []"

section \<open>Example gateways\<close>

text \<open>Gateways and responses for the worked examples below.\<close>

definition plain_response :: "int \<Rightarrow> string \<Rightarrow> string \<Rightarrow> response" where
  "plain_response code phrase txt =
     \<lparr>status_code = code, reason = phrase, response_url = [], response_text = txt,
      response_json = Inl ''Expecting value: line 1 column 1 (char 0)''\<rparr>"

definition auth_gateway :: server where
  "auth_gateway sent req =
     (if http_method req = POST \<and> map_of (data req) ''username'' = Some ''x1''
      then Responded (plain_response 500 ''Internal Server Error'' ''Internal Server Error'')
      else if http_method req = POST
      then Responded (plain_response 201 ''Created''
             ('' token-'' @ the (map_of (data req) ''username'') @ [CHR 0x0A]))
      else RequestException ''Connection refused'')"

definition json_response :: "int \<Rightarrow> string \<Rightarrow> json \<Rightarrow> response" where
  "json_response code phrase v =
     \<lparr>status_code = code, reason = phrase, response_url = [], response_text = [],
      response_json = Inr v\<rparr>"

text \<open>Two profiles as the gateway lists them; the second one lacks \<open>lastConfiguredOn\<close>.\<close>

definition web_profile :: "(string \<times> json) list" where
  "web_profile =
     [(''profileName'', JStr ''web''), (''status'', JStr ''completed''),
      (''lastConfiguredOn'', JStr ''2024-01-05''),
      (''nextScheduledSyncOn'', JStr ''2024-01-12''),
      (''lastDiscoveryCompletedOn'', JStr ''2024-01-06'')]"

definition mail_profile :: "(string \<times> json) list" where
  "mail_profile =
     [(''profileName'', JStr ''mail''), (''status'', JStr ''queued''),
      (''nextScheduledSyncOn'', JStr ''2024-01-13''),
      (''lastDiscoveryCompletedOn'', JStr ''2024-01-07'')]"

text \<open>A gateway that lists these two profiles for the token \<open>tok-a\<close>, answers 500 for
  \<open>tok-b\<close> and lists no profile for any other token.\<close>

definition profile_gateway :: server where
  "profile_gateway sent req =
     (if map_of (headers req) ''Authorization'' = Some ''Bearer tok-a''
      then Responded (json_response 200 ''OK'' (JArr [JObj web_profile, JObj mail_profile]))
      else if map_of (headers req) ''Authorization'' = Some ''Bearer tok-b''
      then Responded (plain_response 500 ''Internal Server Error'' ''Internal Server Error'')
      else Responded (json_response 200 ''OK'' (JArr [])))"

text \<open>A gateway that refuses to delete the profile \<open>mail\<close> (404) and deletes every other
  one (204).\<close>

definition delete_gateway :: server where
  "delete_gateway sent req =
     (if url req = ''https://gw/easm/v2/profile?profileName=mail''
      then Responded \<lparr>status_code = 404, reason = ''Not Found'', response_url = url req,
                       response_text = [], response_json = Inl ''Expecting value''\<rparr>
      else Responded (plain_response 204 ''No Content'' []))"

text \<open>A table of three rows for the examples of the filter: two profiles of the identity
  \<open>x\<close>, one of them with a parenthesis in its name, and the row of a failed fetch.\<close>

definition example_table :: "profile_record list" where
  "example_table =
     [profile_record_of ''x'' web_profile,
      profile_record_of ''x'' [(''profileName'', JStr ''scan (weekly)''), (''status'', JStr ''queued'')],
      failed_row ''x1'']"

text \<open>The examples use string cells only and patterns covered by the two modelled facts of
  \<open>re\<close>, so the parameters of the library are never consulted there; this value fills them.\<close>

definition example_lib :: pylib where
  "example_lib = \<lparr>re_other = (\<lambda>pat. Inl (ReError [])), astype_other = (\<lambda>column v. [])\<rparr>"

text \<open>A gateway that answers 500 for the token \<open>tok-b\<close> and, for any other token, 200
  with an object that wraps the list of profiles instead of the list itself.\<close>

definition envelope_gateway :: server where
  "envelope_gateway sent req =
     (if map_of (headers req) ''Authorization'' = Some ''Bearer tok-b''
      then Responded (plain_response 500 ''Internal Server Error'' ''Internal Server Error'')
      else Responded (json_response 200 ''OK'' (JObj [(''profiles'', JArr [JObj web_profile])])))"

section \<open>Notions used to state the properties\<close>

text \<open>
  These definitions are not part of the program: they name what the theorems below speak
  about.
\<close>

text \<open>What \<open>get_profile_status\<close> returns for each identity of \<open>tokens\<close> in turn, when the
  calls are made one after the other starting from the requests \<open>sent\<close>.\<close>

fun status_results ::
  "server \<Rightarrow> request list \<Rightarrow> (string \<times> string) list \<Rightarrow> string
     \<Rightarrow> (string \<times> json \<times> string option) list" where
  "status_results srv sent [] gateway_url = []"
| "status_results srv sent ((user, token) # items) gateway_url =
     (user, status_outcome (srv sent (status_request token gateway_url)))
       # status_results srv (sent @ [status_request token gateway_url]) items gateway_url"

text \<open>A fetched value that the loop can flatten: a value that counts as false, or an array
  whose elements are all objects.\<close>

fun is_dict :: "json \<Rightarrow> bool" where
  "is_dict (JObj kvs) = True"
| "is_dict v = False"

definition profiles_ok :: "json \<Rightarrow> bool" where
  "profiles_ok v = (case v of JArr xs \<Rightarrow> list_all is_dict xs | _ \<Rightarrow> \<not> truthy v)"

fun dict_items :: "json \<Rightarrow> (string \<times> json) list" where
  "dict_items (JObj kvs) = kvs"
| "dict_items v = []"

fun array_items :: "json \<Rightarrow> json list" where
  "array_items (JArr xs) = xs"
| "array_items v = []"

text \<open>The rows one identity contributes to the table: one row per profile of a non-empty
  array, in the order of the array, and the single row of \<open>failed_row\<close> otherwise.\<close>

definition identity_rows :: "string \<Rightarrow> json \<Rightarrow> profile_record list" where
  "identity_rows user profiles =
     (if truthy profiles
      then map (\<lambda>p. profile_record_of user (dict_items p)) (array_items profiles)
      else [failed_row user])"

text \<open>The number a string of decimal digits stands for.\<close>

definition decimal_value :: "string \<Rightarrow> nat" where
  "decimal_value s = foldl (\<lambda>n c. 10 * n + (of_char c - 48)) 0 s"

text \<open>What \<open>get_auth_token\<close> returns for each username in turn, when the calls are made one
  after the other starting from the requests \<open>sent\<close>.\<close>

fun auth_results ::
  "server \<Rightarrow> request list \<Rightarrow> string list \<Rightarrow> string \<Rightarrow> string
     \<Rightarrow> (string \<times> string option \<times> string option) list" where
  "auth_results srv sent [] password gateway_url = []"
| "auth_results srv sent (user # users) password gateway_url =
     (user, auth_outcome (srv sent (auth_request user password gateway_url)))
       # auth_results srv (sent @ [auth_request user password gateway_url]) users password
           gateway_url"

text \<open>The sessions that a list of such results grants: one per username with a token, in
  order.\<close>

fun granted :: "(string \<times> string option \<times> string option) list \<Rightarrow> (string \<times> string) list" where
  "granted [] = []"
| "granted ((user, Some token, error) # results) = (user, token) # granted results"
| "granted ((user, None, error) # results) = granted results"

text \<open>The message shown for one result.\<close>

fun auth_message_of :: "string \<times> string option \<times> string option \<Rightarrow> auth_message" where
  "auth_message_of (user, Some token, error) = Authenticated user"
| "auth_message_of (user, None, error) = NotAuthenticated user error"

text \<open>A selection the bulk delete can carry out: its username is a key of \<open>tokens\<close> and
  its profile name is a \<open>str\<close>, as for every row of the table that came from the gateway
  with a name.\<close>

fun selection_ok :: "(string \<times> string) list \<Rightarrow> string \<times> json \<Rightarrow> bool" where
  "selection_ok tokens (user, JStr name) = (map_of tokens user \<noteq> None)"
| "selection_ok tokens (user, v) = False"

text \<open>The request that deletes such a selection.\<close>

fun selection_request :: "(string \<times> string) list \<Rightarrow> string \<Rightarrow> string \<times> json \<Rightarrow> request" where
  "selection_request tokens gateway_url (user, name) =
     delete_request (case map_of tokens user of Some token \<Rightarrow> token | None \<Rightarrow> [])
       gateway_url (case name of JStr s \<Rightarrow> s | _ \<Rightarrow> [])"

text \<open>What \<open>delete_profile\<close> returns for each selection in turn, beside the profile name,
  when the calls are made one after the other starting from the requests \<open>sent\<close>.\<close>

fun delete_results ::
  "server \<Rightarrow> request list \<Rightarrow> (string \<times> string) list \<Rightarrow> string \<Rightarrow> (string \<times> json) list
     \<Rightarrow> (json \<times> bool \<times> string option) list" where
  "delete_results srv sent tokens gateway_url [] = []"
| "delete_results srv sent tokens gateway_url (selection # selected) =
     (snd selection, delete_outcome (srv sent (selection_request tokens gateway_url selection)))
       # delete_results srv (sent @ [selection_request tokens gateway_url selection])
           tokens gateway_url selected"

text \<open>The names whose delete succeeded, and the names whose delete failed with the error.\<close>

fun deleted :: "(json \<times> bool \<times> string option) list \<Rightarrow> json list" where
  "deleted [] = []"
| "deleted ((name, success, error) # results) =
     (if success then name # deleted results else deleted results)"

fun not_deleted :: "(json \<times> bool \<times> string option) list \<Rightarrow> (json \<times> string option) list" where
  "not_deleted [] = []"
| "not_deleted ((name, success, error) # results) =
     (if success then not_deleted results else (name, error) # not_deleted results)"

text \<open>\<open>query\<close> is a substring of \<open>s\<close> when letter case is ignored: the lower-case form of
  \<open>query\<close> occurs in the lower-case form of \<open>s\<close>.\<close>

definition ci_substring :: "string \<Rightarrow> string \<Rightarrow> bool" where
  "ci_substring query s = sublist (map py_lower query) (map py_lower s)"

section \<open>The credential expander\<close>

text \<open>The loop appends, to the list it was given, one name for every number from \<open>i\<close> up to
  \<open>stop - 1\<close>.\<close>

lemma usernames_loop_map:
  "usernames_loop b i stop acc =
     acc @ map (\<lambda>j. if j = 0 then b else b @ str_int j) [i..stop - 1]"
proof (induction b i stop acc rule: usernames_loop.induct)
  case (1 b i stop acc)
  show ?case
  proof (cases "i < stop")
    case True
    then have "[i..stop - 1] = i # [i + 1..stop - 1]"
      by (simp add: upto_rec1)
    with True "1" show ?thesis
      by (subst usernames_loop.simps) simp
  next
    case False
    then show ?thesis
      by (subst usernames_loop.simps) simp
  qed
qed

lemma generate_usernames_map:
  "generate_usernames b s e = map (\<lambda>j. if j = 0 then b else b @ str_int j) [s..e]"
  by (simp add: generate_usernames_def usernames_loop_map)

text \<open>The decimal form is read back by \<open>decimal_value\<close>, so different numbers give
  different names.\<close>

lemma digit_char_value: "d < 10 \<Longrightarrow> (of_char (digit_char d) :: nat) = 48 + d"
proof -
  assume "d < 10"
  then have "d \<in> {0, 1, 2, 3, 4, 5, 6, 7, 8, 9}" by auto
  then show ?thesis
    by (auto simp: digit_char_def)
qed

lemma decimal_value_snoc:
  "decimal_value (s @ [c]) = 10 * decimal_value s + (of_char c - 48)"
  by (simp add: decimal_value_def)

lemma decimal_value_str_nat: "decimal_value (str_nat n) = n"
proof (induction n rule: str_nat.induct)
  case (1 n)
  show ?case
  proof (cases "n < 10")
    case True
    then show ?thesis
      by (subst str_nat.simps) (simp add: decimal_value_def digit_char_value)
  next
    case False
    with "1" show ?thesis
      by (subst str_nat.simps) (simp add: decimal_value_snoc digit_char_value)
  qed
qed

lemma str_nat_inj: "str_nat n = str_nat m \<Longrightarrow> n = m"
  by (metis decimal_value_str_nat)

lemma str_nat_digits: "c \<in> set (str_nat n) \<Longrightarrow> \<exists>d < 10. c = digit_char d"
proof (induction n rule: str_nat.induct)
  case (1 n)
  show ?case
  proof (cases "n < 10")
    case True
    with "1.prems" show ?thesis
      by (subst (asm) str_nat.simps) auto
  next
    case False
    with "1.prems" have "c \<in> set (str_nat (n div 10)) \<or> c = digit_char (n mod 10)"
      by (subst (asm) str_nat.simps) auto
    with "1.IH" False show ?thesis
      by (metis mod_less_divisor zero_less_numeral)
  qed
qed

lemma str_nat_nonempty: "str_nat n \<noteq> []"
  by (subst str_nat.simps) simp

lemma minus_not_digit: "d < 10 \<Longrightarrow> digit_char d \<noteq> CHR ''-''"
proof
  assume "d < 10" and "digit_char d = CHR ''-''"
  then have "(of_char (CHR ''-'') :: nat) = 48 + d"
    using digit_char_value [of d] by simp
  then show False by simp
qed

lemma str_nat_no_minus: "str_nat n \<noteq> CHR ''-'' # s"
proof
  assume eq: "str_nat n = CHR ''-'' # s"
  then have "CHR ''-'' \<in> set (str_nat n)" by simp
  then obtain d where "d < 10" "CHR ''-'' = digit_char d"
    using str_nat_digits by blast
  then show False using minus_not_digit by metis
qed

lemma str_int_inj: "str_int i = str_int j \<Longrightarrow> i = j"
proof -
  assume eq: "str_int i = str_int j"
  consider "i < 0" "j < 0" | "i < 0" "0 \<le> j" | "0 \<le> i" "j < 0" | "0 \<le> i" "0 \<le> j"
    by linarith
  then show ?thesis
  proof cases
    case 1
    with eq have "nat (- i) = nat (- j)" by (simp add: str_int_def str_nat_inj)
    with 1 show ?thesis by simp
  next
    case 2
    with eq have "str_nat (nat j) = CHR ''-'' # str_nat (nat (- i))"
      by (simp add: str_int_def)
    then show ?thesis using str_nat_no_minus by blast
  next
    case 3
    with eq have "str_nat (nat i) = CHR ''-'' # str_nat (nat (- j))"
      by (simp add: str_int_def)
    then show ?thesis using str_nat_no_minus by blast
  next
    case 4
    with eq have "nat i = nat j" by (simp add: str_int_def str_nat_inj)
    with 4 show ?thesis by simp
  qed
qed

lemma str_int_nonempty: "str_int i \<noteq> []"
  by (simp add: str_int_def str_nat_nonempty)

lemma generate_usernames_distinct: "distinct (generate_usernames b s e)"
proof -
  have "inj_on (\<lambda>j. if j = 0 then b else b @ str_int j) (set [s..e])"
    by (rule inj_onI) (auto simp: str_int_nonempty dest: str_int_inj split: if_splits)
  then show ?thesis
    by (simp add: generate_usernames_map distinct_map)
qed

text \<open>
  Claim C3.  For every base string and integers \<open>0 \<le> start \<le> end\<close>,
  \<open>generate_usernames base start end\<close> returns exactly \<open>end - start + 1\<close> names in ascending
  order of the offset: the name at position \<open>k\<close> belongs to the offset \<open>start + k\<close>, and it is
  the bare base name for the offset 0 and the base name followed by the decimal form of the
  offset otherwise.  In particular \<open>generate_usernames base 0 0 = [base]\<close> and
  \<open>generate_usernames "x" 1 3 = ["x1", "x2", "x3"]\<close>.
\<close>

theorem C3_expand:
  "0 \<le> start \<Longrightarrow> start \<le> end_num \<Longrightarrow>
     length (generate_usernames base start end_num) = nat (end_num - start + 1) \<and>
     (\<forall>k < nat (end_num - start + 1).
        generate_usernames base start end_num ! k =
          (if start + int k = 0 then base else base @ str_int (start + int k))) \<and>
     generate_usernames base 0 0 = [base] \<and>
     generate_usernames ''x'' 1 3 = [''x1'', ''x2'', ''x3'']"
proof (intro conjI allI impI)
  show "length (generate_usernames base start end_num) = nat (end_num - start + 1)"
    by (simp add: generate_usernames_map)
next
  fix k assume "k < nat (end_num - start + 1)"
  then show "generate_usernames base start end_num ! k =
          (if start + int k = 0 then base else base @ str_int (start + int k))"
    by (simp add: generate_usernames_map)
next
  show "generate_usernames base 0 0 = [base]"
    by (simp add: generate_usernames_map)
next
  show "generate_usernames ''x'' 1 3 = [''x1'', ''x2'', ''x3'']"
    by code_simp
qed

theorem C3_expand_witness:
  "(0::int) \<le> 0 \<and> (0::int) \<le> 2 \<and>
   length (generate_usernames ''easm'' 0 2) = 3 \<and>
   generate_usernames ''easm'' 0 2 ! 0 = ''easm'' \<and>
   generate_usernames ''easm'' 0 2 ! 2 = ''easm2''"
  using C3_expand [of 0 2 "''easm''"] by (simp add: str_int_def str_nat.simps digit_char_def)

section \<open>The range check of the Connect button\<close>

text \<open>
  Claim C2, as amended.  For integers \<open>end < start\<close>: \<open>generate_usernames\<close> has no range check
  of its own and returns the empty list; the check is made by the handler of the Connect
  button, which, when the gateway URL, the base username and the password are all non-empty,
  stops with the message "End number must be greater than or equal to start number." and
  sends no request.
\<close>

theorem C2_range_guard:
  "end_num < start_num \<Longrightarrow>
     generate_usernames base_username start_num end_num = [] \<and>
     (gateway_url \<noteq> [] \<and> base_username \<noteq> [] \<and> password \<noteq> [] \<longrightarrow>
        connect srv sent gateway_url base_username password start_num end_num =
          (Inl ''End number must be greater than or equal to start number.'', sent))"
  by (simp add: generate_usernames_map connect_def)

theorem C2_range_guard_witness:
  "(1::int) < 3 \<and> generate_usernames ''x'' 3 1 = [] \<and>
   connect (\<lambda>sent req. RequestException ''down'') [] ''gateway.example'' ''x'' ''secret'' 3 1 =
     (Inl ''End number must be greater than or equal to start number.'', [])"
  using C2_range_guard [of 1 3 "''x''" "''gateway.example''" "''secret''"
      "\<lambda>sent req. RequestException ''down''" "[]"]
  by simp

text \<open>
  The claim as stated (for every base string, \<open>expand\<close> with \<open>end < start\<close> fails with the
  range error) does not hold: \<open>generate_usernames "x" 3 1\<close> returns the empty list, and with
  an empty base username the handler stops with the message about the required fields.
\<close>

theorem C2_counterexample:
  "generate_usernames ''x'' 3 1 = [] \<and>
   connect (\<lambda>sent req. RequestException ''down'') [] ''gateway.example'' '''' ''secret'' 3 1 =
     (Inl ''Please fill in all required fields.'', [])"
  by (simp add: generate_usernames_map connect_def)

section \<open>Authentication\<close>

text \<open>
  Claim C5.  \<open>get_auth_token\<close> returns a token exactly when the response to its POST has
  status 201 and a text that is non-empty after \<open>strip\<close>, and the token is that stripped text
  (with no error beside it); a response with any other status gives no token and the error
  "HTTP <status> - <text>"; a \<open>RequestException\<close> gives no token and its message as the error.
  Exactly one request is sent.
\<close>

theorem C5_authenticate:
  "(\<forall>t. fst (fst (get_auth_token srv sent user password gateway_url)) = Some t \<longleftrightarrow>
       (\<exists>r. srv sent (auth_request user password gateway_url) = Responded r \<and>
            status_code r = 201 \<and> strip (response_text r) \<noteq> [] \<and>
            t = strip (response_text r))) \<and>
   (\<forall>r. srv sent (auth_request user password gateway_url) = Responded r \<and>
        status_code r = 201 \<and> strip (response_text r) \<noteq> [] \<longrightarrow>
        fst (get_auth_token srv sent user password gateway_url) =
          (Some (strip (response_text r)), None)) \<and>
   (\<forall>r. srv sent (auth_request user password gateway_url) = Responded r \<and>
        status_code r \<noteq> 201 \<longrightarrow>
        fst (get_auth_token srv sent user password gateway_url) =
          (None, Some (''HTTP '' @ str_int (status_code r) @ '' - '' @ response_text r))) \<and>
   (\<forall>e. srv sent (auth_request user password gateway_url) = RequestException e \<longrightarrow>
        fst (get_auth_token srv sent user password gateway_url) = (None, Some e)) \<and>
   snd (get_auth_token srv sent user password gateway_url) =
     sent @ [auth_request user password gateway_url]"
  by (cases "srv sent (auth_request user password gateway_url)")
     (auto simp: get_auth_token_def send_def auth_outcome_def Let_def)

theorem C5_authenticate_witness:
  "fst (get_auth_token auth_gateway [] ''x'' ''pw'' ''gw'') = (Some ''token-x'', None) \<and>
   fst (get_auth_token auth_gateway [] ''x1'' ''pw'' ''gw'') =
     (None, Some ''HTTP 500 - Internal Server Error'')"
  using C5_authenticate [of auth_gateway "[]" "''x''" "''pw''" "''gw''"]
    C5_authenticate [of auth_gateway "[]" "''x1''" "''pw''" "''gw''"]
  by (simp add: auth_gateway_def plain_response_def auth_request_def strip_def py_isspace_def
        str_int_def str_nat.simps digit_char_def prod_eq_iff)

section \<open>The aggregation loop\<close>

lemma profiles_loop_dicts:
  "list_all is_dict ps \<Longrightarrow>
     profiles_loop user ps acc = Inr (acc @ map (\<lambda>p. profile_record_of user (dict_items p)) ps)"
proof (induction ps arbitrary: acc)
  case Nil
  then show ?case by simp
next
  case (Cons p ps)
  then obtain kvs where "p = JObj kvs"
    by (cases p) auto
  with Cons show ?case by simp
qed

lemma add_profiles_ok:
  "profiles_ok v \<Longrightarrow> add_profiles user v acc = Inr (acc @ identity_rows user v)"
  by (cases v) (simp_all add: profiles_ok_def add_profiles_def identity_rows_def profiles_loop_dicts)

lemma aggregate_loop_ok:
  "list_all (\<lambda>(u, p, e). profiles_ok p) (status_results srv sent items gw) \<Longrightarrow>
     aggregate_loop srv sent items gw acc =
       (Inr (acc @ concat (map (\<lambda>(u, p, e). identity_rows u p) (status_results srv sent items gw))),
        sent @ map (\<lambda>(u, t). status_request t gw) items)"
proof (induction items arbitrary: sent acc)
  case Nil
  then show ?case by simp
next
  case (Cons item items)
  obtain user token where item: "item = (user, token)"
    by (cases item)
  obtain p e where out: "status_outcome (srv sent (status_request token gw)) = (p, e)"
    by (cases "status_outcome (srv sent (status_request token gw))")
  from Cons.prems item out have ok: "profiles_ok p"
    and rest: "list_all (\<lambda>(u, p, e). profiles_ok p)
                 (status_results srv (sent @ [status_request token gw]) items gw)"
    by simp_all
  show ?case
    using Cons.IH [OF rest] ok
    by (simp add: item out get_profile_status_def send_def add_profiles_ok)
qed

lemma status_outcome_error:
  "status_outcome res = (p, Some e) \<Longrightarrow> p = JNull"
  by (auto simp: status_outcome_def split: http_result.splits option.splits sum.splits)

lemma status_results_error:
  "(u, p, Some e) \<in> set (status_results srv sent items gw) \<Longrightarrow> p = JNull"
  by (induction items arbitrary: sent) (auto dest: status_outcome_error [OF sym])

lemma status_results_users:
  "map fst (status_results srv sent items gw) = map fst items"
  by (induction items arbitrary: sent) auto

lemma identity_rows_username:
  "r \<in> set (identity_rows u p) \<Longrightarrow> username r = u"
  by (auto simp: identity_rows_def profile_record_of_def failed_row_def split: if_splits)

lemma identity_rows_nonempty:
  "profiles_ok p \<Longrightarrow> identity_rows u p \<noteq> []"
  by (cases p) (auto simp: identity_rows_def profiles_ok_def)

lemma filter_blocks:
  fixes results :: "(string \<times> json \<times> string option) list"
  shows "distinct (map fst results) \<Longrightarrow> (u, p, e) \<in> set results \<Longrightarrow>
     filter (\<lambda>r. username r = u) (concat (map (\<lambda>(u, p, e). identity_rows u p) results))
       = identity_rows u p"
proof (induction results)
  case Nil
  then show ?case by simp
next
  case (Cons x results)
  obtain u' p' e' where x: "x = (u', p', e')"
    by (cases x)
  have same: "filter (\<lambda>r. username r = u') (identity_rows u' q) = identity_rows u' q" for q
    by (simp add: identity_rows_username)
  have other: "v \<noteq> u' \<Longrightarrow> filter (\<lambda>r. username r = v) (identity_rows u' q) = []" for v q
    by (auto simp: filter_empty_conv dest: identity_rows_username)
  have none: "v \<notin> fst ` set rs \<Longrightarrow>
      filter (\<lambda>r. username r = v) (concat (map (\<lambda>(u, p, e). identity_rows u p) rs)) = []"
    for v and rs :: "(string \<times> json \<times> string option) list"
    by (induction rs) (auto simp: filter_empty_conv dest: identity_rows_username)
  show ?case
  proof (cases "(u, p, e) = x")
    case True
    with Cons.prems x have "u \<notin> fst ` set results" by auto
    then have "filter (\<lambda>r. username r = u)
        (concat (map (\<lambda>(u, p, e). identity_rows u p) results)) = []"
      by (rule none)
    with True x show ?thesis by (simp add: same)
  next
    case False
    with Cons.prems have mem: "(u, p, e) \<in> set results" by simp
    with Cons.prems x have "u \<noteq> u'" by force
    with Cons.IH mem Cons.prems x show ?thesis by (simp add: other)
  qed
qed

text \<open>Whenever the loop returns a table, every identity has added at least one row to
  it; so the table has a row whenever \<open>tokens\<close> has an entry, which is when the script filters
  and shows it.\<close>

lemma profiles_loop_length:
  "profiles_loop user ps acc = Inr acc' \<Longrightarrow> length acc' = length acc + length ps"
proof (induction ps arbitrary: acc)
  case Nil
  then show ?case by simp
next
  case (Cons p ps)
  then show ?case
    by (cases "profile_row user p") (auto dest: Cons.IH)
qed

lemma add_profiles_grows:
  "add_profiles user v acc = Inr acc' \<Longrightarrow> length acc < length acc'"
proof (cases "truthy v")
  case False
  assume "add_profiles user v acc = Inr acc'"
  with False show ?thesis by (auto simp: add_profiles_def)
next
  case True
  assume run: "add_profiles user v acc = Inr acc'"
  with True obtain elements where it: "py_iter v = Inr elements"
    and loop: "profiles_loop user elements acc = Inr acc'"
    by (auto simp: add_profiles_def split: sum.splits)
  have "elements \<noteq> []"
    using True it by (cases v) auto
  with profiles_loop_length [OF loop] show ?thesis
    by (cases elements) auto
qed

lemma aggregate_loop_grows:
  "aggregate_loop srv sent items gw acc = (Inr rows, sent') \<Longrightarrow>
     length acc + length items \<le> length rows"
proof (induction items arbitrary: sent acc)
  case Nil
  then show ?case by simp
next
  case (Cons item items)
  obtain user token where item: "item = (user, token)" by (cases item)
  obtain p e s1 where call: "get_profile_status srv sent token gw = ((p, e), s1)"
    by (metis surj_pair)
  from Cons.prems item call obtain acc1 where add: "add_profiles user p acc = Inr acc1"
    and rest: "aggregate_loop srv s1 items gw acc1 = (Inr rows, sent')"
    by (auto split: sum.splits)
  from Cons.IH [OF rest] add_profiles_grows [OF add] show ?case by simp
qed

lemma aggregate_nonempty:
  "aggregate srv sent tokens gw = (Inr rows, sent') \<Longrightarrow> tokens \<noteq> [] \<Longrightarrow> rows \<noteq> []"
  using aggregate_loop_grows [of srv sent tokens gw "[]" rows sent']
  by (cases tokens) (auto simp: aggregate_def)

text \<open>An element that is not an object ends the run with \<open>AttributeError\<close>: the properties
  of the table below are stated for fetched values that the loop can flatten.\<close>

lemma add_profiles_not_a_dict:
  "add_profiles user (JArr [JObj profile, JStr s]) acc = Inl AttributeError"
  by (simp add: add_profiles_def)

text \<open>
  Claim C1, as amended.  Let \<open>tokens\<close> map identities to tokens (a dict: distinct keys), and
  let every value that a fetch returns be one the loop can flatten: a value that counts as
  false, or an array whose elements are all objects.  Then \<open>aggregate\<close> returns, after exactly
  one request per identity in the order of the mapping, the table made of the rows of each
  identity in that order.  For an identity whose fetch failed (an error was returned), or
  returned a value that counts as false, the rows of that identity are exactly one row with
  the profile name "N/A", the status "Status Retrieval Failed" and the three time stamps
  "N/A".  For every other identity no error was returned and its rows are, in the order of
  its array, one row per profile with each of the five fields taken from the profile or, where
  the profile lacks it, set to "N/A" ("Unknown" for the status), whatever happened to the
  other identities.  Every identity of the mapping has at least one row.
\<close>

theorem C1_aggregate:
  assumes "distinct (map fst tokens)"
    and "list_all (\<lambda>(u, p, e). profiles_ok p) (status_results srv sent tokens gateway_url)"
  shows "\<exists>rows.
      aggregate srv sent tokens gateway_url =
        (Inr rows, sent @ map (\<lambda>(u, t). status_request t gateway_url) tokens) \<and>
      rows = concat (map (\<lambda>(u, p, e). identity_rows u p)
                       (status_results srv sent tokens gateway_url)) \<and>
      (\<forall>(u, p, e) \<in> set (status_results srv sent tokens gateway_url).
         e \<noteq> None \<or> \<not> truthy p \<longrightarrow>
         filter (\<lambda>r. username r = u) rows =
           [\<lparr>username = u, profileName = JStr ''N/A'',
             status = JStr ''Status Retrieval Failed'', lastConfiguredOn = JStr ''N/A'',
             nextScheduledSyncOn = JStr ''N/A'', lastDiscoveryCompletedOn = JStr ''N/A''\<rparr>]) \<and>
      (\<forall>(u, p, e) \<in> set (status_results srv sent tokens gateway_url).
         truthy p \<longrightarrow>
         e = None \<and>
         filter (\<lambda>r. username r = u) rows =
           map (\<lambda>profile.
                  \<lparr>username = u,
                   profileName = (case map_of (dict_items profile) ''profileName'' of
                                    Some v \<Rightarrow> v | None \<Rightarrow> JStr ''N/A''),
                   status = (case map_of (dict_items profile) ''status'' of
                               Some v \<Rightarrow> v | None \<Rightarrow> JStr ''Unknown''),
                   lastConfiguredOn = (case map_of (dict_items profile) ''lastConfiguredOn'' of
                                         Some v \<Rightarrow> v | None \<Rightarrow> JStr ''N/A''),
                   nextScheduledSyncOn = (case map_of (dict_items profile) ''nextScheduledSyncOn'' of
                                            Some v \<Rightarrow> v | None \<Rightarrow> JStr ''N/A''),
                   lastDiscoveryCompletedOn =
                     (case map_of (dict_items profile) ''lastDiscoveryCompletedOn'' of
                        Some v \<Rightarrow> v | None \<Rightarrow> JStr ''N/A'')\<rparr>)
               (array_items p)) \<and>
      (\<forall>u \<in> set (map fst tokens). \<exists>r \<in> set rows. username r = u)"
proof -
  let ?results = "status_results srv sent tokens gateway_url"
  let ?rows = "concat (map (\<lambda>(u, p, e). identity_rows u p) ?results)"
  let ?sentinel = "\<lambda>u. \<lparr>username = u, profileName = JStr ''N/A'',
             status = JStr ''Status Retrieval Failed'', lastConfiguredOn = JStr ''N/A'',
             nextScheduledSyncOn = JStr ''N/A'', lastDiscoveryCompletedOn = JStr ''N/A''\<rparr>"
  have run: "aggregate srv sent tokens gateway_url =
      (Inr ?rows, sent @ map (\<lambda>(u, t). status_request t gateway_url) tokens)"
    using aggregate_loop_ok [OF assms(2), of "[]"] by (simp add: aggregate_def)
  have dist: "distinct (map fst ?results)"
    using assms(1) by (simp add: status_results_users)
  have own: "filter (\<lambda>r. username r = u) ?rows = identity_rows u p"
    if "(u, p, e) \<in> set ?results" for u p e
    using filter_blocks [OF dist that] .
  have null: "p = JNull" if "(u, p, e) \<in> set ?results" "e \<noteq> None" for u p e
  proof -
    from that obtain msg where "e = Some msg" by auto
    with that(1) show ?thesis by (auto dest: status_results_error)
  qed
  have failed: "filter (\<lambda>r. username r = u) ?rows = [?sentinel u]"
    if "(u, p, e) \<in> set ?results" "e \<noteq> None \<or> \<not> truthy p" for u p e
  proof -
    have "\<not> truthy p"
    proof (cases "e = None")
      case True
      with that(2) show ?thesis by simp
    next
      case False
      with that(1) have "p = JNull" by (rule null)
      then show ?thesis by simp
    qed
    with own [OF that(1)] show ?thesis by (simp add: identity_rows_def failed_row_def)
  qed
  have real: "e = None \<and> filter (\<lambda>r. username r = u) ?rows =
           map (\<lambda>profile.
                  \<lparr>username = u,
                   profileName = (case map_of (dict_items profile) ''profileName'' of
                                    Some v \<Rightarrow> v | None \<Rightarrow> JStr ''N/A''),
                   status = (case map_of (dict_items profile) ''status'' of
                               Some v \<Rightarrow> v | None \<Rightarrow> JStr ''Unknown''),
                   lastConfiguredOn = (case map_of (dict_items profile) ''lastConfiguredOn'' of
                                         Some v \<Rightarrow> v | None \<Rightarrow> JStr ''N/A''),
                   nextScheduledSyncOn = (case map_of (dict_items profile) ''nextScheduledSyncOn'' of
                                            Some v \<Rightarrow> v | None \<Rightarrow> JStr ''N/A''),
                   lastDiscoveryCompletedOn =
                     (case map_of (dict_items profile) ''lastDiscoveryCompletedOn'' of
                        Some v \<Rightarrow> v | None \<Rightarrow> JStr ''N/A'')\<rparr>)
               (array_items p)"
    if "(u, p, e) \<in> set ?results" "truthy p" for u p e
  proof
    show "e = None"
    proof (rule ccontr)
      assume "e \<noteq> None"
      with that(1) have "p = JNull" by (rule null)
      with that(2) show False by simp
    qed
    from own [OF that(1)] that(2)
    show "filter (\<lambda>r. username r = u) ?rows =
           map (\<lambda>profile.
                  \<lparr>username = u,
                   profileName = (case map_of (dict_items profile) ''profileName'' of
                                    Some v \<Rightarrow> v | None \<Rightarrow> JStr ''N/A''),
                   status = (case map_of (dict_items profile) ''status'' of
                               Some v \<Rightarrow> v | None \<Rightarrow> JStr ''Unknown''),
                   lastConfiguredOn = (case map_of (dict_items profile) ''lastConfiguredOn'' of
                                         Some v \<Rightarrow> v | None \<Rightarrow> JStr ''N/A''),
                   nextScheduledSyncOn = (case map_of (dict_items profile) ''nextScheduledSyncOn'' of
                                            Some v \<Rightarrow> v | None \<Rightarrow> JStr ''N/A''),
                   lastDiscoveryCompletedOn =
                     (case map_of (dict_items profile) ''lastDiscoveryCompletedOn'' of
                        Some v \<Rightarrow> v | None \<Rightarrow> JStr ''N/A'')\<rparr>)
               (array_items p)"
      by (simp add: identity_rows_def profile_record_of_def dict_get_def)
  qed
  have some: "\<exists>r \<in> set ?rows. username r = u" if "u \<in> set (map fst tokens)" for u
  proof -
    from that have "u \<in> set (map fst ?results)" by (simp add: status_results_users)
    then obtain p e where mem: "(u, p, e) \<in> set ?results" by auto
    with assms(2) have "profiles_ok p" by (auto simp: list_all_iff)
    then obtain r where r: "r \<in> set (identity_rows u p)"
      using identity_rows_nonempty [of p u] by (cases "identity_rows u p") auto
    then have "username r = u" by (rule identity_rows_username)
    moreover from r mem have "r \<in> set ?rows" by force
    ultimately show ?thesis by blast
  qed
  show ?thesis
  proof (intro exI conjI)
    show "aggregate srv sent tokens gateway_url =
      (Inr ?rows, sent @ map (\<lambda>(u, t). status_request t gateway_url) tokens)"
      by (rule run)
    show "\<forall>(u, p, e) \<in> set ?results. e \<noteq> None \<or> \<not> truthy p \<longrightarrow>
         filter (\<lambda>r. username r = u) ?rows = [?sentinel u]"
      using failed by blast
    show "\<forall>u \<in> set (map fst tokens). \<exists>r \<in> set ?rows. username r = u"
      using some by blast
    show "\<forall>(u, p, e) \<in> set ?results. truthy p \<longrightarrow>
         e = None \<and>
         filter (\<lambda>r. username r = u) ?rows =
           map (\<lambda>profile.
                  \<lparr>username = u,
                   profileName = (case map_of (dict_items profile) ''profileName'' of
                                    Some v \<Rightarrow> v | None \<Rightarrow> JStr ''N/A''),
                   status = (case map_of (dict_items profile) ''status'' of
                               Some v \<Rightarrow> v | None \<Rightarrow> JStr ''Unknown''),
                   lastConfiguredOn = (case map_of (dict_items profile) ''lastConfiguredOn'' of
                                         Some v \<Rightarrow> v | None \<Rightarrow> JStr ''N/A''),
                   nextScheduledSyncOn = (case map_of (dict_items profile) ''nextScheduledSyncOn'' of
                                            Some v \<Rightarrow> v | None \<Rightarrow> JStr ''N/A''),
                   lastDiscoveryCompletedOn =
                     (case map_of (dict_items profile) ''lastDiscoveryCompletedOn'' of
                        Some v \<Rightarrow> v | None \<Rightarrow> JStr ''N/A'')\<rparr>)
               (array_items p)"
      using real by blast
  qed (rule refl)
qed

theorem C1_aggregate_witness:
  "aggregate profile_gateway []
     [(''x'', ''tok-a''), (''x1'', ''tok-b''), (''x2'', ''tok-a'')] ''gw'' =
     (Inr [\<lparr>username = ''x'', profileName = JStr ''web'', status = JStr ''completed'',
            lastConfiguredOn = JStr ''2024-01-05'', nextScheduledSyncOn = JStr ''2024-01-12'',
            lastDiscoveryCompletedOn = JStr ''2024-01-06''\<rparr>,
           \<lparr>username = ''x'', profileName = JStr ''mail'', status = JStr ''queued'',
            lastConfiguredOn = JStr ''N/A'', nextScheduledSyncOn = JStr ''2024-01-13'',
            lastDiscoveryCompletedOn = JStr ''2024-01-07''\<rparr>,
           \<lparr>username = ''x1'', profileName = JStr ''N/A'',
            status = JStr ''Status Retrieval Failed'', lastConfiguredOn = JStr ''N/A'',
            nextScheduledSyncOn = JStr ''N/A'', lastDiscoveryCompletedOn = JStr ''N/A''\<rparr>,
           \<lparr>username = ''x2'', profileName = JStr ''web'', status = JStr ''completed'',
            lastConfiguredOn = JStr ''2024-01-05'', nextScheduledSyncOn = JStr ''2024-01-12'',
            lastDiscoveryCompletedOn = JStr ''2024-01-06''\<rparr>,
           \<lparr>username = ''x2'', profileName = JStr ''mail'', status = JStr ''queued'',
            lastConfiguredOn = JStr ''N/A'', nextScheduledSyncOn = JStr ''2024-01-13'',
            lastDiscoveryCompletedOn = JStr ''2024-01-07''\<rparr>],
      [status_request ''tok-a'' ''gw'', status_request ''tok-b'' ''gw'',
       status_request ''tok-a'' ''gw''])"
  using C1_aggregate [of "[(''x'', ''tok-a''), (''x1'', ''tok-b''), (''x2'', ''tok-a'')]"
      profile_gateway "[]" "''gw''"]
  by (simp add: profile_gateway_def status_request_def status_outcome_def raise_for_status_def
        json_response_def plain_response_def profiles_ok_def identity_rows_def
        profile_record_of_def dict_get_def web_profile_def mail_profile_def failed_row_def)

text \<open>
  The claim as stated (for every mapping and whatever the gateway answers) does not hold.
  When one identity's fetch fails and another identity's fetch succeeds with an object that
  wraps the list, the loop raises \<open>AttributeError\<close> at the first key of the object: no table
  is returned, and the row of the identity whose fetch failed is lost with it.
\<close>

theorem C1_counterexample:
  "aggregate envelope_gateway [] [(''x1'', ''tok-b''), (''x'', ''tok-a'')] ''gw'' =
     (Inl AttributeError, [status_request ''tok-b'' ''gw'', status_request ''tok-a'' ''gw''])"
  by (simp add: aggregate_def get_profile_status_def send_def envelope_gateway_def
        status_request_def status_outcome_def raise_for_status_def json_response_def
        plain_response_def add_profiles_def)

text \<open>
  Claim C7.  Every element of a fetched array that is an object becomes one row, and this
  never fails: a field the object has is carried over as it is, and a field it lacks gets
  its default, "N/A" (for the profile name and the three time stamps) or "Unknown" (for the
  status).  A non-empty array of objects therefore adds exactly one row per element, in
  order, whichever fields are missing.  In the example the second profile lacks
  \<open>lastConfiguredOn\<close>: its row has "N/A" there and the values of the element elsewhere.
\<close>

theorem C7_defaults:
  "profile_row user (JObj profile) = Inr (profile_record_of user profile) \<and>
   username (profile_record_of user profile) = user \<and>
   profileName (profile_record_of user profile) =
     (case map_of profile ''profileName'' of Some v \<Rightarrow> v | None \<Rightarrow> JStr ''N/A'') \<and>
   status (profile_record_of user profile) =
     (case map_of profile ''status'' of Some v \<Rightarrow> v | None \<Rightarrow> JStr ''Unknown'') \<and>
   lastConfiguredOn (profile_record_of user profile) =
     (case map_of profile ''lastConfiguredOn'' of Some v \<Rightarrow> v | None \<Rightarrow> JStr ''N/A'') \<and>
   nextScheduledSyncOn (profile_record_of user profile) =
     (case map_of profile ''nextScheduledSyncOn'' of Some v \<Rightarrow> v | None \<Rightarrow> JStr ''N/A'') \<and>
   lastDiscoveryCompletedOn (profile_record_of user profile) =
     (case map_of profile ''lastDiscoveryCompletedOn'' of Some v \<Rightarrow> v | None \<Rightarrow> JStr ''N/A'') \<and>
   (profiles \<noteq> [] \<longrightarrow>
      add_profiles user (JArr (map JObj profiles)) all_profiles =
        Inr (all_profiles @ map (profile_record_of user) profiles))"
proof -
  have "add_profiles user (JArr (map JObj profiles)) all_profiles =
        Inr (all_profiles @ map (profile_record_of user) profiles)" if "profiles \<noteq> []"
  proof -
    have "profiles_ok (JArr (map JObj profiles))"
      by (simp add: profiles_ok_def list_all_iff)
    then show ?thesis
      using that by (simp add: add_profiles_ok identity_rows_def comp_def)
  qed
  then show ?thesis
    by (simp add: profile_record_of_def dict_get_def)
qed

theorem C7_defaults_witness:
  "add_profiles ''x'' (JArr [JObj web_profile, JObj mail_profile]) [] =
     Inr [\<lparr>username = ''x'', profileName = JStr ''web'', status = JStr ''completed'',
           lastConfiguredOn = JStr ''2024-01-05'', nextScheduledSyncOn = JStr ''2024-01-12'',
           lastDiscoveryCompletedOn = JStr ''2024-01-06''\<rparr>,
          \<lparr>username = ''x'', profileName = JStr ''mail'', status = JStr ''queued'',
           lastConfiguredOn = JStr ''N/A'', nextScheduledSyncOn = JStr ''2024-01-13'',
           lastDiscoveryCompletedOn = JStr ''2024-01-07''\<rparr>]"
  using C7_defaults [of "''x''" web_profile "[web_profile, mail_profile]" "[]"]
  by (simp add: profile_record_of_def dict_get_def web_profile_def mail_profile_def)

text \<open>
  Claim C9.  At any turn of the loop, a fetch that succeeds with the empty list and a fetch
  that fails with a \<open>RequestException\<close> have the same effect on the table: the loop goes on
  with the one row of \<open>failed_row\<close> appended for that identity.  So that row in the table does
  not tell that the fetch failed: in the example the gateway answers 200 with \<open>[]\<close>.
\<close>

theorem C9_empty_list:
  "(srv sent (status_request token gateway_url) = Responded r \<and>
      raise_for_status r = None \<and> response_json r = Inr (JArr []) \<longrightarrow>
      get_profile_status srv sent token gateway_url =
        ((JArr [], None), sent @ [status_request token gateway_url]) \<and>
      aggregate_loop srv sent ((user, token) # items) gateway_url all_profiles =
        aggregate_loop srv (sent @ [status_request token gateway_url]) items gateway_url
          (all_profiles @ [failed_row user])) \<and>
   (srv sent (status_request token gateway_url) = RequestException e \<longrightarrow>
      get_profile_status srv sent token gateway_url =
        ((JNull, Some e), sent @ [status_request token gateway_url]) \<and>
      aggregate_loop srv sent ((user, token) # items) gateway_url all_profiles =
        aggregate_loop srv (sent @ [status_request token gateway_url]) items gateway_url
          (all_profiles @ [failed_row user]))"
  by (simp add: get_profile_status_def send_def status_outcome_def add_profiles_def)

theorem C9_empty_list_witness:
  "get_profile_status profile_gateway [] ''tok-c'' ''gw'' =
     ((JArr [], None), [status_request ''tok-c'' ''gw'']) \<and>
   aggregate profile_gateway [] [(''x2'', ''tok-c'')] ''gw'' =
     (Inr [\<lparr>username = ''x2'', profileName = JStr ''N/A'',
            status = JStr ''Status Retrieval Failed'', lastConfiguredOn = JStr ''N/A'',
            nextScheduledSyncOn = JStr ''N/A'', lastDiscoveryCompletedOn = JStr ''N/A''\<rparr>],
      [status_request ''tok-c'' ''gw''])"
  using C9_empty_list [of profile_gateway "[]" "''tok-c''" "''gw''"
      "json_response 200 ''OK'' (JArr [])" "''x2''" "[]" "[]"]
  by (simp add: aggregate_def profile_gateway_def status_request_def raise_for_status_def
        json_response_def failed_row_def get_profile_status_def send_def status_outcome_def
        add_profiles_def)

section \<open>The session map\<close>

lemma auth_outcome_token:
  "auth_outcome res = (Some t, e) \<Longrightarrow> t \<noteq> [] \<and> e = None"
  by (auto simp: auth_outcome_def Let_def split: http_result.splits if_splits)

lemma auth_results_users:
  "map fst (auth_results srv sent users pw gw) = users"
  by (induction users arbitrary: sent) auto

lemma auth_results_token:
  "(u, Some t, e) \<in> set (auth_results srv sent users pw gw) \<Longrightarrow> t \<noteq> [] \<and> e = None"
  by (induction users arbitrary: sent) (auto dest: auth_outcome_token [OF sym])

lemma dict_set_fresh: "key \<notin> fst ` set d \<Longrightarrow> dict_set d key v = d @ [(key, v)]"
  by (induction d) auto

lemma granted_keys: "fst ` set (granted results) \<subseteq> fst ` set results"
  by (induction results rule: granted.induct) auto

lemma authenticate_loop_granted:
  "distinct users \<Longrightarrow> set users \<inter> fst ` set tokens = {} \<Longrightarrow>
     authenticate_loop srv sent users pw gw tokens shown =
       ((tokens @ granted (auth_results srv sent users pw gw),
         shown @ map auth_message_of (auth_results srv sent users pw gw)),
        sent @ map (\<lambda>u. auth_request u pw gw) users)"
proof (induction users arbitrary: sent tokens shown)
  case Nil
  then show ?case by simp
next
  case (Cons u users)
  let ?req = "auth_request u pw gw"
  obtain tok err where out: "auth_outcome (srv sent ?req) = (tok, err)"
    by (cases "auth_outcome (srv sent ?req)")
  from Cons.prems have fresh: "u \<notin> fst ` set tokens" and d: "distinct users"
    and u: "u \<notin> set users" and disj: "set users \<inter> fst ` set tokens = {}"
    by auto
  show ?case
  proof (cases tok)
    case None
    with Cons.IH [OF d disj, of "sent @ [?req]" "shown @ [NotAuthenticated u err]"] out
    show ?thesis
      by (simp add: get_auth_token_def send_def)
  next
    case (Some t)
    with out have t: "t \<noteq> []" by (auto dest: auth_outcome_token)
    from disj u have disj': "set users \<inter> fst ` set (tokens @ [(u, t)]) = {}"
      by auto
    from Cons.IH [OF d disj', of "sent @ [?req]" "shown @ [Authenticated u]"] out Some t fresh
    show ?thesis
      by (simp add: get_auth_token_def send_def dict_set_fresh)
  qed
qed

lemma map_of_granted:
  "distinct (map fst results) \<Longrightarrow> (u, tok, err) \<in> set results \<Longrightarrow>
     map_of (granted results) u = tok"
proof (induction results rule: granted.induct)
  case 1
  then show ?case by simp
next
  case (2 user token error results)
  then show ?case by (auto simp: rev_image_eqI)
next
  case (3 user error results)
  have "u = user \<Longrightarrow> map_of (granted results) u = None"
    using "3.prems"(1) granted_keys [of results]
    by (auto simp: map_of_eq_None_iff)
  with 3 show ?case by auto
qed

text \<open>
  Claim C6.  When the Connect button passes its checks, every generated username is tried
  once, in order, and \<open>tokens\<close> holds exactly the usernames whose call returned a token, each
  with its own token: the entry of a username is the token of its own call and nothing else,
  a username whose call returned no token is not a key, and every key is a username whose
  call returned a non-empty token and no error.  A response with status 500 and the text
  "Internal Server Error" returns no token and the error "HTTP 500 - Internal Server Error".
  In the example the second of three usernames gets that response and the other two keep
  their sessions.
\<close>

theorem C6_sessions:
  assumes "gateway_url \<noteq> []" and "base_username \<noteq> []" and "password \<noteq> []"
    and "start_num \<le> end_num"
  shows "\<exists>tokens shown.
      connect srv sent gateway_url base_username password start_num end_num =
        (Inr (tokens, shown),
         sent @ map (\<lambda>u. auth_request u password gateway_url)
                  (generate_usernames base_username start_num end_num)) \<and>
      tokens = granted (auth_results srv sent
                 (generate_usernames base_username start_num end_num) password gateway_url) \<and>
      shown = map auth_message_of (auth_results srv sent
                 (generate_usernames base_username start_num end_num) password gateway_url) \<and>
      (\<forall>(u, tok, err) \<in> set (auth_results srv sent
                 (generate_usernames base_username start_num end_num) password gateway_url).
         map_of tokens u = tok) \<and>
      (\<forall>(u, tok, err) \<in> set (auth_results srv sent
                 (generate_usernames base_username start_num end_num) password gateway_url).
         tok = None \<longrightarrow> u \<notin> fst ` set tokens) \<and>
      (\<forall>u \<in> fst ` set tokens. \<exists>t. t \<noteq> [] \<and> (u, Some t, None) \<in> set (auth_results srv sent
                 (generate_usernames base_username start_num end_num) password gateway_url)) \<and>
      (\<forall>r. status_code r = 500 \<and> response_text r = ''Internal Server Error'' \<longrightarrow>
         auth_outcome (Responded r) = (None, Some ''HTTP 500 - Internal Server Error''))"
proof -
  let ?users = "generate_usernames base_username start_num end_num"
  let ?results = "auth_results srv sent ?users password gateway_url"
  have d: "distinct ?users" by (rule generate_usernames_distinct)
  have run: "connect srv sent gateway_url base_username password start_num end_num =
      (Inr (granted ?results, map auth_message_of ?results),
       sent @ map (\<lambda>u. auth_request u password gateway_url) ?users)"
    using assms authenticate_loop_granted [OF d, of "[]" srv sent password gateway_url "[]"]
    by (simp add: connect_def)
  have dr: "distinct (map fst ?results)"
    using d by (simp add: auth_results_users)
  have own: "map_of (granted ?results) u = tok" if "(u, tok, err) \<in> set ?results" for u tok err
    using map_of_granted [OF dr that] .
  have absent: "u \<notin> fst ` set (granted ?results)"
    if "(u, tok, err) \<in> set ?results" "tok = None" for u tok err
    using own [OF that(1)] that(2) by (simp add: map_of_eq_None_iff)
  have keys: "\<exists>t. t \<noteq> [] \<and> (u, Some t, None) \<in> set ?results"
    if "u \<in> fst ` set (granted ?results)" for u
  proof -
    from that granted_keys [of ?results] obtain tok err where mem: "(u, tok, err) \<in> set ?results"
      by force
    from that obtain t where "map_of (granted ?results) u = Some t"
      by (meson domD domI map_of_eq_None_iff option.exhaust)
    with own [OF mem] have tok: "tok = Some t" by simp
    with mem have mem': "(u, Some t, err) \<in> set ?results" by simp
    from auth_results_token [OF mem'] have "t \<noteq> []" "err = None" by simp_all
    with mem' show ?thesis by blast
  qed
  have e500: "auth_outcome (Responded r) = (None, Some ''HTTP 500 - Internal Server Error'')"
    if "status_code r = 500" "response_text r = ''Internal Server Error''" for r
    using that by (simp add: auth_outcome_def str_int_def str_nat.simps digit_char_def)
  show ?thesis
  proof (intro exI conjI)
    show "connect srv sent gateway_url base_username password start_num end_num =
      (Inr (granted ?results, map auth_message_of ?results),
       sent @ map (\<lambda>u. auth_request u password gateway_url) ?users)"
      by (rule run)
    show "\<forall>(u, tok, err) \<in> set ?results. map_of (granted ?results) u = tok"
      using own by blast
    show "\<forall>(u, tok, err) \<in> set ?results. tok = None \<longrightarrow> u \<notin> fst ` set (granted ?results)"
      using absent by blast
    show "\<forall>u \<in> fst ` set (granted ?results).
        \<exists>t. t \<noteq> [] \<and> (u, Some t, None) \<in> set ?results"
      using keys by blast
    show "\<forall>r. status_code r = 500 \<and> response_text r = ''Internal Server Error'' \<longrightarrow>
         auth_outcome (Responded r) = (None, Some ''HTTP 500 - Internal Server Error'')"
      using e500 by blast
  qed (rule refl)+
qed

theorem C6_sessions_witness:
  "connect auth_gateway [] ''gw'' ''x'' ''pw'' 0 2 =
     (Inr ([(''x'', ''token-x''), (''x2'', ''token-x2'')],
           [Authenticated ''x'',
            NotAuthenticated ''x1'' (Some ''HTTP 500 - Internal Server Error''),
            Authenticated ''x2'']),
      [auth_request ''x'' ''pw'' ''gw'', auth_request ''x1'' ''pw'' ''gw'',
       auth_request ''x2'' ''pw'' ''gw''])"
proof -
  have users: "generate_usernames ''x'' 0 2 = [''x'', ''x1'', ''x2'']"
    by code_simp
  show ?thesis
    using C6_sessions [of "''gw''" "''x''" "''pw''" 0 2 auth_gateway "[]"]
    by (simp add: users auth_gateway_def plain_response_def auth_request_def auth_outcome_def
          strip_def py_isspace_def str_int_def str_nat.simps digit_char_def)
qed

section \<open>The bulk delete\<close>

lemma delete_loop_ok:
  "list_all (selection_ok tokens) selected \<Longrightarrow>
     delete_loop srv sent tokens gw selected succ failed =
       (Inr (succ @ deleted (delete_results srv sent tokens gw selected),
             failed @ not_deleted (delete_results srv sent tokens gw selected)),
        sent @ map (selection_request tokens gw) selected)"
proof (induction selected arbitrary: sent succ failed)
  case Nil
  then show ?case by simp
next
  case (Cons sel selected)
  obtain user v where sel: "sel = (user, v)" by (cases sel)
  from Cons.prems sel obtain name token where v: "v = JStr name"
    and tok: "map_of tokens user = Some token"
    by (cases v) auto
  obtain ok err where out:
    "delete_outcome (srv sent (delete_request token gw name)) = (ok, err)"
    by (cases "delete_outcome (srv sent (delete_request token gw name))")
  from Cons.prems have rest: "list_all (selection_ok tokens) selected" by simp
  show ?case
    using Cons.IH [OF rest] out
    by (simp add: sel v tok delete_profile_def send_def)
qed

lemma delete_results_names:
  "map fst (delete_results srv sent tokens gw selected) = map snd selected"
  by (induction selected arbitrary: sent) auto

lemma deleted_length:
  "length (deleted results) + length (not_deleted results) = length results"
  by (induction results rule: deleted.induct) auto

text \<open>A profile name that is not a string ends the run with \<open>TypeError\<close> before any request
  for it is made: the property below is stated for selections that can be carried out.\<close>

lemma bulk_delete_not_a_string:
  "map_of tokens user = Some token \<Longrightarrow>
     bulk_delete srv sent tokens gw ((user, JNull) # selected) = (Inl TypeError, sent)"
  by (simp add: bulk_delete_def delete_profile_def)

text \<open>
  Claim C4, as amended.  Let every selection be one the bulk delete can carry out: its
  username is a key of \<open>tokens\<close> and its profile name is a string.  Then \<open>bulk_delete\<close> sends
  exactly one DELETE per selection, in the order of the selections, whatever the earlier
  ones returned; the names whose call succeeded are collected in order in the first list and
  the names whose call failed, with their errors, in the second, so that the two lengths add
  up to the number of selections.  With three selections of which only the second fails, the
  first list has the first and the third name and the second list has the second name with
  its error.
\<close>

theorem C4_bulk_delete:
  assumes "list_all (selection_ok tokens) selected"
  shows "\<exists>succeeded failed.
      bulk_delete srv sent tokens gateway_url selected =
        (Inr (succeeded, failed),
         sent @ map (selection_request tokens gateway_url) selected) \<and>
      succeeded = deleted (delete_results srv sent tokens gateway_url selected) \<and>
      failed = not_deleted (delete_results srv sent tokens gateway_url selected) \<and>
      map fst (delete_results srv sent tokens gateway_url selected) = map snd selected \<and>
      length succeeded + length failed = length selected \<and>
      (\<forall>n1 n2 n3 e1 e2 e3.
         delete_results srv sent tokens gateway_url selected =
           [(n1, True, e1), (n2, False, e2), (n3, True, e3)] \<longrightarrow>
         succeeded = [n1, n3] \<and> failed = [(n2, e2)])"
proof (intro exI conjI)
  let ?results = "delete_results srv sent tokens gateway_url selected"
  show "bulk_delete srv sent tokens gateway_url selected =
        (Inr (deleted ?results, not_deleted ?results),
         sent @ map (selection_request tokens gateway_url) selected)"
    using delete_loop_ok [OF assms, of srv sent gateway_url "[]" "[]"]
    by (simp add: bulk_delete_def)
  show "map fst ?results = map snd selected"
    by (rule delete_results_names)
  have "length ?results = length selected"
    using delete_results_names [of srv sent tokens gateway_url selected]
    by (metis length_map)
  then show "length (deleted ?results) + length (not_deleted ?results) = length selected"
    by (simp add: deleted_length)
  show "\<forall>n1 n2 n3 e1 e2 e3.
         ?results = [(n1, True, e1), (n2, False, e2), (n3, True, e3)] \<longrightarrow>
         deleted ?results = [n1, n3] \<and> not_deleted ?results = [(n2, e2)]"
    by simp
qed (rule refl)+

theorem C4_bulk_delete_witness:
  "bulk_delete delete_gateway [] [(''x'', ''tok-a''), (''x1'', ''tok-b'')] ''gw''
     [(''x'', JStr ''web''), (''x1'', JStr ''mail''), (''x'', JStr ''db'')] =
     (Inr ([JStr ''web'', JStr ''db''],
           [(JStr ''mail'',
             Some ''404 Client Error: Not Found for url: https://gw/easm/v2/profile?profileName=mail'')]),
      [delete_request ''tok-a'' ''gw'' ''web'', delete_request ''tok-b'' ''gw'' ''mail'',
       delete_request ''tok-a'' ''gw'' ''db''])"
  using C4_bulk_delete [of "[(''x'', ''tok-a''), (''x1'', ''tok-b'')]"
      "[(''x'', JStr ''web''), (''x1'', JStr ''mail''), (''x'', JStr ''db'')]"
      delete_gateway "[]" "''gw''"]
  by (simp add: delete_gateway_def plain_response_def delete_request_def delete_outcome_def
        raise_for_status_def quote_def quote_char_def always_safe_def
        str_int_def str_nat.simps digit_char_def)

text \<open>
  The claim as stated (for every sequence of selections) does not hold.  A selection whose
  profile name is not a string (the table copies whatever value the gateway gave, here
  \<open>null\<close>) raises \<open>TypeError\<close>, and one whose username is not a key of \<open>tokens\<close> raises
  \<open>KeyError\<close>; either ends the run before any request is sent, so the selections after it
  are never attempted.
\<close>

theorem C4_counterexample:
  "bulk_delete delete_gateway [] [(''x'', ''tok-a'')] ''gw''
     [(''x'', JNull), (''x'', JStr ''web'')] = (Inl TypeError, []) \<and>
   bulk_delete delete_gateway [] [(''x'', ''tok-a'')] ''gw''
     [(''y'', JStr ''db''), (''x'', JStr ''web'')] = (Inl (KeyError ''y''), []) \<and>
   profileName (profile_record_of ''x'' [(''profileName'', JNull), (''status'', JStr ''queued'')])
     = JNull"
  by (simp add: bulk_delete_def delete_profile_def profile_record_of_def dict_get_def)

section \<open>The search filter\<close>

lemma ci_match_here_prefix:
  "ci_match_here p s \<longleftrightarrow> prefix (map py_lower p) (map py_lower s)"
  by (induction p s rule: ci_match_here.induct) auto

lemma ci_search_substring: "ci_search pat s \<longleftrightarrow> ci_substring pat s"
proof (induction s)
  case Nil
  then show ?case
    by (simp add: ci_substring_def ci_match_here_prefix)
next
  case (Cons c cs)
  then show ?case
    by (simp add: ci_substring_def ci_match_here_prefix sublist_Cons_right)
qed

lemma apply_rows_compiled:
  "re_compile_ignorecase lib search = Inr found \<Longrightarrow>
     apply_rows lib search df rows = Inr (map (\<lambda>row. list_ex found (row_texts lib df row)) rows)"
  by (induction rows) (simp_all add: row_matches_def)

lemma apply_rows_error:
  "re_compile_ignorecase lib search = Inl e \<Longrightarrow> rows \<noteq> [] \<Longrightarrow>
     apply_rows lib search df rows = Inl e"
  by (cases rows) (simp_all add: row_matches_def)

lemma select_marked: "map fst (filter snd (zip rows (map P rows))) = filter P rows"
  by (induction rows) auto

lemma filter_df_compiled:
  "re_compile_ignorecase lib search = Inr found \<Longrightarrow> search \<noteq> [] \<Longrightarrow>
     filter_df lib search df = Inr (filter (\<lambda>row. list_ex found (row_texts lib df row)) df)"
  by (simp add: filter_df_def apply_rows_compiled select_marked)

lemma row_texts_nonempty: "row_texts lib df row \<noteq> []"
  by (simp add: row_texts_def)

text \<open>
  Claim C8, as amended.  For every table and every query that has none of the special
  characters of regular expressions, the filter returns exactly the rows, in order, for
  which the query is a substring, letter case ignored, of the text of at least one of the
  six cells; the empty query returns the table unchanged; the query "COMPLETED" keeps every
  row whose status is "completed".
\<close>

theorem C8_filter_literal:
  "list_all (\<lambda>c. \<not> re_special c) search \<Longrightarrow>
     filter_df lib search df =
       Inr (filter (\<lambda>row. \<exists>t \<in> set (row_texts lib df row). ci_substring search t) df) \<and>
     filter_df lib [] df = Inr df \<and>
     (\<forall>row \<in> set df. status row = JStr ''completed'' \<longrightarrow>
        (\<exists>rows. filter_df lib ''COMPLETED'' df = Inr rows \<and> row \<in> set rows))"
proof (intro conjI ballI impI)
  assume lit: "list_all (\<lambda>c. \<not> re_special c) search"
  show "filter_df lib search df =
       Inr (filter (\<lambda>row. \<exists>t \<in> set (row_texts lib df row). ci_substring search t) df)"
  proof (cases "search = []")
    case True
    have "ci_substring [] t" for t
      by (simp add: ci_substring_def)
    then have "filter (\<lambda>row. \<exists>t \<in> set (row_texts lib df row). ci_substring [] t) df = df"
      using row_texts_nonempty [of lib df]
      by (auto simp: filter_id_conv intro: hd_in_set)
    with True show ?thesis
      by (simp add: filter_df_def)
  next
    case False
    from lit have "re_compile_ignorecase lib search = Inr (ci_search search)"
      by (simp add: re_compile_ignorecase_def)
    from filter_df_compiled [OF this False] show ?thesis
      by (simp add: list_ex_iff ci_search_substring)
  qed
next
  show "filter_df lib [] df = Inr df"
    by (simp add: filter_df_def)
next
  fix row assume row: "row \<in> set df" and st: "status row = JStr ''completed''"
  have comp: "re_compile_ignorecase lib ''COMPLETED'' = Inr (ci_search ''COMPLETED'')"
    by (simp add: re_compile_ignorecase_def re_special_def)
  have "ci_search ''COMPLETED'' ''completed''"
    by code_simp
  with st have "list_ex (ci_search ''COMPLETED'') (row_texts lib df row)"
    by (simp add: row_texts_def astype_str_def)
  with row have "row \<in> set (filter (\<lambda>row. list_ex (ci_search ''COMPLETED'') (row_texts lib df row)) df)"
    by simp
  with filter_df_compiled [OF comp, of df]
  show "\<exists>rows. filter_df lib ''COMPLETED'' df = Inr rows \<and> row \<in> set rows"
    by simp
qed

theorem C8_filter_literal_witness:
  "filter_df example_lib ''COMPLETED'' example_table = Inr [profile_record_of ''x'' web_profile] \<and>
   filter_df example_lib ''n/a'' example_table =
     Inr [profile_record_of ''x'' [(''profileName'', JStr ''scan (weekly)''), (''status'', JStr ''queued'')],
          failed_row ''x1'']"
proof -
  have a: "filter_df example_lib ''COMPLETED'' example_table = Inr [profile_record_of ''x'' web_profile]"
    by code_simp
  have b: "filter_df example_lib ''n/a'' example_table =
     Inr [profile_record_of ''x'' [(''profileName'', JStr ''scan (weekly)''), (''status'', JStr ''queued'')],
          failed_row ''x1'']"
    by code_simp
  have lit: "list_all (\<lambda>c. \<not> re_special c) ''n/a''"
    by (simp add: re_special_def)
  show ?thesis
    using C8_filter_literal [OF lit, of example_lib example_table] a b by simp
qed

text \<open>
  The claim as stated (for every query) does not hold: the query \<open>(\<close> is a substring of the
  profile name "scan (weekly)", so the claim promises that row, but the filter raises
  \<open>re.error\<close>.
\<close>

theorem C8_counterexample:
  "filter_df example_lib ''('' example_table =
     Inl (ReError ''missing ), unterminated subpattern at position 0'') \<and>
   filter (\<lambda>row. \<exists>t \<in> set (row_texts example_lib example_table row). ci_substring ''('' t)
     example_table =
     [profile_record_of ''x'' [(''profileName'', JStr ''scan (weekly)''), (''status'', JStr ''queued'')]]"
proof
  show "filter_df example_lib ''('' example_table =
     Inl (ReError ''missing ), unterminated subpattern at position 0'')"
    by code_simp
  have "filter (\<lambda>row. list_ex (ci_search ''('') (row_texts example_lib example_table row))
     example_table =
     [profile_record_of ''x'' [(''profileName'', JStr ''scan (weekly)''), (''status'', JStr ''queued'')]]"
    by code_simp
  then show "filter (\<lambda>row. \<exists>t \<in> set (row_texts example_lib example_table row). ci_substring ''('' t)
     example_table =
     [profile_record_of ''x'' [(''profileName'', JStr ''scan (weekly)''), (''status'', JStr ''queued'')]]"
    by (simp add: list_ex_iff ci_search_substring)
qed

text \<open>
  Claim C10.  The filter hands the query to the regular-expression compiler: on a table with
  a row, the query \<open>(\<close>, which is not a valid regular expression, makes the filter raise
  \<open>re.error\<close> instead of returning rows, and so does every query the compiler rejects.
\<close>

theorem C10_filter_regex:
  "df \<noteq> [] \<Longrightarrow>
     filter_df lib ''('' df = Inl (ReError ''missing ), unterminated subpattern at position 0'') \<and>
     (\<forall>search e. re_compile_ignorecase lib search = Inl e \<longrightarrow> filter_df lib search df = Inl e)"
proof (intro conjI allI impI)
  assume df: "df \<noteq> []"
  have bad: "re_compile_ignorecase lib ''('' =
      Inl (ReError ''missing ), unterminated subpattern at position 0'')"
    by (simp add: re_compile_ignorecase_def re_special_def)
  from apply_rows_error [OF bad df]
  show "filter_df lib ''('' df = Inl (ReError ''missing ), unterminated subpattern at position 0'')"
    by (simp add: filter_df_def)
  fix search e assume err: "re_compile_ignorecase lib search = Inl e"
  then have "search \<noteq> []"
    by (auto simp: re_compile_ignorecase_def)
  with apply_rows_error [OF err df] show "filter_df lib search df = Inl e"
    by (simp add: filter_df_def)
qed

theorem C10_filter_regex_witness:
  "example_table \<noteq> [] \<and>
   filter_df example_lib ''('' example_table =
     Inl (ReError ''missing ), unterminated subpattern at position 0'')"
  using C10_filter_regex [of example_table example_lib]
  by (simp add: example_table_def)

end
